theory Spec2Isabelle
  imports Complex_Main "HOL-Library.AList"
begin

section \<open>Values, documents and errors\<close>

text \<open>
  The values that travel through \<^verbatim>\<open>main.py\<close>: request bodies typed \<^verbatim>\<open>dict\<close>, the
  dictionaries produced by \<^verbatim>\<open>model_dump()\<close> and the documents of the three collections.
  A dictionary is an association list with distinct keys; \<open>map_of\<close> reads it, so that
  statements about documents do not depend on the order of the fields.
  \<open>JDate\<close> is a \<^verbatim>\<open>datetime\<close>: microseconds since the epoch, UTC. A \<^verbatim>\<open>float\<close> is only ever
  carried, never computed with; it is a \<open>real\<close> here.
\<close>

datatype json =
    JNull
  | JBool bool
  | JInt int
  | JFloat real
  | JStr string
  | JDate int
  | JArr "json list"
  | JObj "(string \<times> json) list"

type_synonym document = "(string \<times> json) list"

type_synonym datetime = int

text \<open>
  An \<^verbatim>\<open>HTTPException(status_code, detail)\<close> raised by the application or by FastAPI's
  security scheme, or any other exception that leaves a handler uncaught (named by its
  class), which the server answers with status 500.
\<close>

datatype error =
    HTTPException nat string
  | Uncaught string

fun status_code :: "error \<Rightarrow> nat" where
  "status_code (HTTPException code detail) = code"
| "status_code (Uncaught exn) = 500"

text \<open>The two non-ASCII details of the source, as UTF-8 bytes.\<close>

definition Token_invalido :: string where
  "Token_invalido = ''Token inv'' @ [CHR 0xC3, CHR 0xA1] @ ''lido''"

definition Credenciais_invalidas :: string where
  "Credenciais_invalidas = ''Credenciais inv'' @ [CHR 0xC3, CHR 0xA1] @ ''lidas''"

section \<open>Configuration (lines 27-40)\<close>

text \<open>
  The process environment, as far as \<^verbatim>\<open>main.py\<close> reads it. \<^verbatim>\<open>JWT_EXPIRATION_HOURS\<close> is
  taken after \<^verbatim>\<open>int()\<close>: a value that is not an integer literal stops the import.
\<close>

record environ =
  env_MONGO_URL :: "string option"
  env_DB_NAME :: "string option"
  env_JWT_SECRET_KEY :: "string option"
  env_JWT_ALGORITHM :: "string option"
  env_JWT_EXPIRATION_HOURS :: "int option"
  env_ADMIN_USERNAME :: "string option"
  env_ADMIN_PASSWORD :: "string option"

text \<open>
  The module-level settings. \<open>HTTP_BEARER_STATUS\<close> is not read from the environment:
  it is the status code with which the installed FastAPI's \<^verbatim>\<open>HTTPBearer()\<close>
  (line 67, \<^verbatim>\<open>auto_error\<close> left at its default) answers a request without credentials.
  The source does not set it and the framework has changed it (403 in the releases
  before 0.122, 401 from 0.122 on), so it is a parameter of the model.
\<close>

record config =
  JWT_SECRET :: string
  JWT_ALGORITHM :: string
  JWT_EXPIRATION_HOURS :: int
  ADMIN_USER :: "string option"
  ADMIN_PASS :: "string option"
  HTTP_BEARER_STATUS :: nat

text \<open>Python's \<^verbatim>\<open>not x\<close> on an optional string: unset or empty.\<close>

fun py_not :: "string option \<Rightarrow> bool" where
  "py_not None = True"
| "py_not (Some s) = (s = [])"

definition load_config :: "nat \<Rightarrow> environ \<Rightarrow> string + config" where
  "load_config bearer_status env =
     (if py_not (env_MONGO_URL env) \<or> py_not (env_DB_NAME env)
      then Inl (''MongoDB n'' @ [CHR 0xC3, CHR 0xA3] @ ''o configurado'')
      else if py_not (env_JWT_SECRET_KEY env) \<or> py_not (env_JWT_ALGORITHM env)
      then Inl (''JWT n'' @ [CHR 0xC3, CHR 0xA3] @ ''o configurado'')
      else Inr \<lparr> JWT_SECRET = the (env_JWT_SECRET_KEY env),
                 JWT_ALGORITHM = the (env_JWT_ALGORITHM env),
                 JWT_EXPIRATION_HOURS =
                   (case env_JWT_EXPIRATION_HOURS env of None \<Rightarrow> 24 | Some h \<Rightarrow> h),
                 ADMIN_USER = env_ADMIN_USERNAME env,
                 ADMIN_PASS = env_ADMIN_PASSWORD env,
                 HTTP_BEARER_STATUS = bearer_status \<rparr>)"

section \<open>The token library (python-jose), symbolically\<close>

text \<open>
  A bearer credential is either a string that is no JWT at all, or a JWS whose header
  names an algorithm, whose signature was made with some key, and whose payload carries
  the two claims the application uses: \<^verbatim>\<open>sub\<close> and \<^verbatim>\<open>exp\<close> (whole seconds since the
  epoch), each possibly missing. Signatures are ideal: a signature verifies under a key
  and an algorithm exactly when it was made with that key and that algorithm.
  Payloads with other registered claims (\<^verbatim>\<open>nbf\<close>, \<^verbatim>\<open>aud\<close>, ...), which the application
  never issues, are outside this type.
\<close>

record claims =
  sub :: "string option"
  exp :: "int option"

datatype token =
    Garbage string
  | JWS string string claims

datatype jwt_error =
    JWTError
  | ExpiredSignatureError

text \<open>
  \<^verbatim>\<open>calendar.timegm(d.utctimetuple())\<close>: the whole seconds of a datetime, the
  microseconds dropped.
\<close>

definition timegm :: "datetime \<Rightarrow> int" where
  "timegm d = d div 1000000"

definition timedelta_hours :: "int \<Rightarrow> int" where
  "timedelta_hours h = h * 3600 * 1000000"

text \<open>
  \<^verbatim>\<open>jose.constants.ALGORITHMS\<close>, the HMAC family: the algorithms for which a plain
  shared secret such as \<^verbatim>\<open>JWT_SECRET_KEY\<close> is key material.
\<close>

definition HMAC_ALGORITHMS :: "string list" where
  "HMAC_ALGORITHMS = [''HS256'', ''HS384'', ''HS512'']"

text \<open>
  \<^verbatim>\<open>jwt.encode({"sub": sub, "exp": expire}, key, algorithm=alg)\<close>. The library turns the
  datetime under \<^verbatim>\<open>exp\<close> into whole seconds with \<open>timegm\<close>, and raises \<^verbatim>\<open>JWSError\<close>
  when it cannot sign with the algorithm named.
\<close>

definition jwt_encode :: "string \<Rightarrow> datetime \<Rightarrow> string \<Rightarrow> string \<Rightarrow> string + token" where
  "jwt_encode subject expire key alg =
     (if alg \<in> set HMAC_ALGORITHMS
      then Inr (JWS alg key \<lparr> sub = Some subject, exp = Some (timegm expire) \<rparr>)
      else Inl ''JWSError'')"

text \<open>
  \<^verbatim>\<open>jwt.decode(token, key, algorithms=algs)\<close> at clock \<open>now\<close>: the header's algorithm
  must be one of \<open>algs\<close>, the signature must verify, and (\<^verbatim>\<open>_validate_exp\<close>) an \<^verbatim>\<open>exp\<close>
  claim that is present must not be smaller than the current whole second:
  \<^verbatim>\<open>if exp < now: raise ExpiredSignatureError\<close>. Every failure is a \<^verbatim>\<open>JWTError\<close>
  (\<^verbatim>\<open>ExpiredSignatureError\<close> is a subclass).
\<close>

fun jwt_decode :: "token \<Rightarrow> string \<Rightarrow> string list \<Rightarrow> datetime \<Rightarrow> jwt_error + claims" where
  "jwt_decode (Garbage s) key algs now = Inl JWTError"
| "jwt_decode (JWS alg k payload) key algs now =
     (if alg \<notin> set algs then Inl JWTError
      else if k \<noteq> key then Inl JWTError
      else (case exp payload of
              None \<Rightarrow> Inr payload
            | Some e \<Rightarrow> if e < timegm now then Inl ExpiredSignatureError else Inr payload))"

section \<open>Authentication (lines 67, 86-95, 198-211)\<close>

text \<open>
  \<^verbatim>\<open>security = HTTPBearer()\<close>: \<open>None\<close> is a request without an \<^verbatim>\<open>Authorization\<close> header,
  \<open>Some t\<close> a request with \<^verbatim>\<open>Authorization: Bearer t\<close>.
\<close>

definition security :: "config \<Rightarrow> token option \<Rightarrow> error + token" where
  "security cfg authorization =
     (case authorization of
        None \<Rightarrow> Inl (HTTPException (HTTP_BEARER_STATUS cfg) ''Not authenticated'')
      | Some credentials \<Rightarrow> Inr credentials)"

text \<open>
  \<^verbatim>\<open>verify_token\<close>: only \<^verbatim>\<open>JWTError\<close> is caught. \<^verbatim>\<open>payload["sub"]\<close> on a payload
  without that claim raises \<^verbatim>\<open>KeyError\<close>, which is not.
\<close>

definition verify_token :: "config \<Rightarrow> datetime \<Rightarrow> token \<Rightarrow> error + string" where
  "verify_token cfg now credentials =
     (case jwt_decode credentials (JWT_SECRET cfg) [JWT_ALGORITHM cfg] now of
        Inl e \<Rightarrow> Inl (HTTPException 401 Token_invalido)
      | Inr payload \<Rightarrow>
          (case sub payload of
             None \<Rightarrow> Inl (Uncaught ''KeyError'')
           | Some s \<Rightarrow> Inr s))"

text \<open>\<^verbatim>\<open>Depends(verify_token)\<close>, which itself depends on \<^verbatim>\<open>security\<close>.\<close>

definition authenticate :: "config \<Rightarrow> datetime \<Rightarrow> token option \<Rightarrow> error + string" where
  "authenticate cfg now authorization =
     (case security cfg authorization of
        Inl e \<Rightarrow> Inl e
      | Inr credentials \<Rightarrow> verify_token cfg now credentials)"

record AdminLogin =
  username :: string
  password :: string

text \<open>The response model \<^verbatim>\<open>Token\<close>.\<close>

record Token =
  access_token :: token
  token_type :: string

definition admin_login :: "config \<Rightarrow> datetime \<Rightarrow> AdminLogin \<Rightarrow> error + Token" where
  "admin_login cfg now data =
     (if Some (username data) \<noteq> ADMIN_USER cfg \<or> Some (password data) \<noteq> ADMIN_PASS cfg
      then Inl (HTTPException 401 Credenciais_invalidas)
      else
        let expire = now + timedelta_hours (JWT_EXPIRATION_HOURS cfg) in
        (case jwt_encode (username data) expire (JWT_SECRET cfg) (JWT_ALGORITHM cfg) of
           Inl exn \<Rightarrow> Inl (Uncaught exn)
         | Inr tok \<Rightarrow> Inr \<lparr> access_token = tok, token_type = ''bearer'' \<rparr>))"

section \<open>The document store (motor / MongoDB)\<close>

text \<open>
  A collection is the list of its documents in natural order: \<^verbatim>\<open>insert_one\<close> appends,
  an update changes a document in place, nothing is ever removed. The identifier
  \<^verbatim>\<open>_id\<close> that the store assigns is not part of a model document: no filter of the
  source mentions it and every read projects it away. A document is the dictionary
  handed to the driver; how the driver encodes it (dates, for one, with millisecond
  resolution) is below this model.
\<close>

record store =
  home_content :: "document list"
  categories :: "document list"
  products :: "document list"

text \<open>
  The filter \<^verbatim>\<open>{k: v}\<close> for a string or a boolean \<open>v\<close>: the field equals \<open>v\<close>, or it
  is an array with \<open>v\<close> among its elements.
\<close>

definition matches :: "string \<Rightarrow> json \<Rightarrow> document \<Rightarrow> bool" where
  "matches k v d =
     (case map_of d k of
        None \<Rightarrow> False
      | Some (JArr xs) \<Rightarrow> JArr xs = v \<or> v \<in> set xs
      | Some w \<Rightarrow> w = v)"

text \<open>The projection \<^verbatim>\<open>{"_id": 0}\<close>.\<close>

definition project_id :: "document \<Rightarrow> document" where
  "project_id d = filter (\<lambda>(k, v). k \<noteq> ''_id'') d"

definition insert_one :: "document \<Rightarrow> document list \<Rightarrow> document list" where
  "insert_one d coll = coll @ [d]"

definition find_one :: "string \<Rightarrow> json \<Rightarrow> document list \<Rightarrow> document option" where
  "find_one k v coll = map_option project_id (find (matches k v) coll)"

text \<open>\<^verbatim>\<open>find({k: v}, {"_id": 0}).to_list(n)\<close>.\<close>

definition find_to_list :: "string \<Rightarrow> json \<Rightarrow> nat \<Rightarrow> document list \<Rightarrow> document list" where
  "find_to_list k v n coll = map project_id (take n (filter (matches k v) coll))"

text \<open>
  \<^verbatim>\<open>{"$set": data}\<close> for a dictionary \<open>data\<close> of top-level field names: a field that
  exists is overwritten in place and a new one is added; an empty \<open>data\<close> changes
  nothing. The store reads a name with a dot as a path into nested documents and
  refuses some names (the empty name, a leading \<^verbatim>\<open>$\<close>, a change of \<^verbatim>\<open>_id\<close>); such names
  are not top-level field names, and \<open>top_level_fields\<close> says that \<open>data\<close> has none.
\<close>

definition set_fields :: "document \<Rightarrow> document \<Rightarrow> document" where
  "set_fields data d = foldr (\<lambda>(k, v). AList.update k v) data d"



text \<open>\<^verbatim>\<open>update_one({k: v}, {"$set": data})\<close>: the first document that matches, if any.\<close>

fun update_one :: "string \<Rightarrow> json \<Rightarrow> document \<Rightarrow> document list \<Rightarrow> document list" where
  "update_one k v data [] = []"
| "update_one k v data (d # coll) =
     (if matches k v d then set_fields data d # coll
      else d # update_one k v data coll)"

text \<open>
  With \<^verbatim>\<open>upsert=True\<close>: when no document matches, one is inserted, made of the
  filter's field with \<open>data\<close> applied to it.
\<close>

definition update_one_upsert ::
  "string \<Rightarrow> json \<Rightarrow> document \<Rightarrow> document list \<Rightarrow> document list" where
  "update_one_upsert k v data coll =
     (if list_ex (matches k v) coll then update_one k v data coll
      else insert_one (set_fields data [(k, v)]) coll)"

section \<open>Models (lines 101-184)\<close>

text \<open>\<^verbatim>\<open>HomeContent().model_dump()\<close>: every section at its defaults.\<close>

definition HomeContent_default :: document where
  "HomeContent_default =
     [(''slug'', JStr ''home''),
      (''branding'', JObj [(''nome_loja'', JStr []), (''slogan'', JStr []),
                           (''logo_url'', JStr [])]),
      (''hero'', JObj [(''imagem'', JStr []), (''titulo'', JStr []), (''texto'', JArr []),
                       (''frase_impacto'', JStr []), (''cta_texto'', JStr []),
                       (''cta_link'', JStr [])]),
      (''sobre'', JObj [(''titulo'', JStr []), (''mensagens'', JArr []),
                        (''textos'', JArr []), (''fotos'', JArr [])]),
      (''contato'', JObj [(''titulo'', JStr []), (''subtitulo'', JStr []),
                          (''instagram_url'', JStr []), (''lojas'', JArr [])]),
      (''footer'', JObj [(''institucional'', JStr []), (''cnpj'', JStr []),
                         (''selo_texto'', JStr []), (''lojas'', JArr []),
                         (''certificados'', JArr [])])]"

text \<open>
  A validated model instance is a record. The request body it is built from is a
  record of the same fields in which every field that has a default is optional:
  \<open>None\<close> means that the body does not name the field. What is not of the declared
  shape never reaches a handler (the framework answers 422).
\<close>

record Category =
  c_id :: string
  c_nome :: string
  c_slug :: string
  c_ativo :: bool
  c_created_at :: datetime

record CategoryBody =
  cb_id :: "string option"
  cb_nome :: string
  cb_slug :: string
  cb_ativo :: "bool option"
  cb_created_at :: "datetime option"

record ProductSpec =
  spec_label :: string
  spec_value :: string

record ProductCarousel =
  car_home :: bool
  car_promo :: bool
  car_destaque :: bool
  car_order :: int

record ProductCarouselBody =
  carb_home :: "bool option"
  carb_promo :: "bool option"
  carb_destaque :: "bool option"
  carb_order :: "int option"

record Product =
  p_id :: string
  p_name :: string
  p_category :: string
  p_price :: real
  p_promo_active :: bool
  p_promo_price :: "real option"
  p_images :: "string list"
  p_specs :: "ProductSpec list"
  p_carousel :: ProductCarousel
  p_active :: bool
  p_created_at :: datetime

record ProductBody =
  pb_id :: "string option"
  pb_name :: string
  pb_category :: string
  pb_price :: real
  pb_promo_active :: "bool option"
  pb_promo_price :: "real option"
  pb_images :: "string list option"
  pb_specs :: "ProductSpec list option"
  pb_carousel :: "ProductCarouselBody option"
  pb_active :: "bool option"
  pb_created_at :: "datetime option"

text \<open>
  What a request finds outside the program: the clock, the value \<^verbatim>\<open>uuid.uuid4()\<close>
  returns should it be called, and what the media host does with an uploaded file (the
  text of the exception it raises, or its result dictionary).
\<close>

record world =
  clock :: datetime
  uuid4 :: string
  cloudinary_upload :: "string \<Rightarrow> string + document"

text \<open>A field's default, or its \<^verbatim>\<open>default_factory\<close>, is used when the body lacks it.\<close>

definition or_default :: "'a option \<Rightarrow> 'a \<Rightarrow> 'a" where
  "or_default given dflt = (case given of None \<Rightarrow> dflt | Some x \<Rightarrow> x)"

definition Category_init :: "world \<Rightarrow> CategoryBody \<Rightarrow> Category" where
  "Category_init w b =
     \<lparr> c_id = or_default (cb_id b) (uuid4 w),
       c_nome = cb_nome b,
       c_slug = cb_slug b,
       c_ativo = or_default (cb_ativo b) True,
       c_created_at = or_default (cb_created_at b) (clock w) \<rparr>"

definition ProductCarousel_init :: "ProductCarouselBody \<Rightarrow> ProductCarousel" where
  "ProductCarousel_init b =
     \<lparr> car_home = or_default (carb_home b) False,
       car_promo = or_default (carb_promo b) False,
       car_destaque = or_default (carb_destaque b) False,
       car_order = or_default (carb_order b) 0 \<rparr>"

definition ProductCarousel_default :: ProductCarousel where
  "ProductCarousel_default =
     \<lparr> car_home = False, car_promo = False, car_destaque = False, car_order = 0 \<rparr>"

definition Product_init :: "world \<Rightarrow> ProductBody \<Rightarrow> Product" where
  "Product_init w b =
     \<lparr> p_id = or_default (pb_id b) (uuid4 w),
       p_name = pb_name b,
       p_category = pb_category b,
       p_price = pb_price b,
       p_promo_active = or_default (pb_promo_active b) False,
       p_promo_price = pb_promo_price b,
       p_images = or_default (pb_images b) [],
       p_specs = or_default (pb_specs b) [],
       p_carousel = or_default (map_option ProductCarousel_init (pb_carousel b))
                      ProductCarousel_default,
       p_active = or_default (pb_active b) True,
       p_created_at = or_default (pb_created_at b) (clock w) \<rparr>"

text \<open>\<^verbatim>\<open>model_dump()\<close>: \<^verbatim>\<open>None\<close> is dumped as a null, not left out.\<close>

definition Category_dump :: "Category \<Rightarrow> document" where
  "Category_dump c =
     [(''id'', JStr (c_id c)), (''nome'', JStr (c_nome c)), (''slug'', JStr (c_slug c)),
      (''ativo'', JBool (c_ativo c)), (''created_at'', JDate (c_created_at c))]"

definition ProductSpec_dump :: "ProductSpec \<Rightarrow> json" where
  "ProductSpec_dump sp = JObj [(''label'', JStr (spec_label sp)), (''value'', JStr (spec_value sp))]"

definition ProductCarousel_dump :: "ProductCarousel \<Rightarrow> json" where
  "ProductCarousel_dump c =
     JObj [(''home'', JBool (car_home c)), (''promo'', JBool (car_promo c)),
           (''destaque'', JBool (car_destaque c)), (''order'', JInt (car_order c))]"

definition Product_dump :: "Product \<Rightarrow> document" where
  "Product_dump p =
     [(''id'', JStr (p_id p)), (''name'', JStr (p_name p)),
      (''category'', JStr (p_category p)), (''price'', JFloat (p_price p)),
      (''promo_active'', JBool (p_promo_active p)),
      (''promo_price'', (case p_promo_price p of None \<Rightarrow> JNull | Some x \<Rightarrow> JFloat x)),
      (''images'', JArr (map JStr (p_images p))),
      (''specs'', JArr (map ProductSpec_dump (p_specs p))),
      (''carousel'', ProductCarousel_dump (p_carousel p)),
      (''active'', JBool (p_active p)),
      (''created_at'', JDate (p_created_at p))]"

section \<open>Endpoints (lines 198-312)\<close>

text \<open>
  A handler takes the settings, the world of the request, the \<^verbatim>\<open>Authorization\<close> header
  where the endpoint depends on \<^verbatim>\<open>verify_token\<close>, its arguments and the store; it returns
  the response, or the error that ends the request, and the store it leaves. A
  dependency that fails ends the request before the handler's body runs.
\<close>

datatype response =
    RToken Token
  | RDoc document
  | RDocs "document list"
  | RCategory Category
  | RProduct Product

definition ok_true :: response where
  "ok_true = RDoc [(''ok'', JBool True)]"

definition get_home_content :: "store \<Rightarrow> (error + response) \<times> store" where
  "get_home_content s =
     (case find_one ''slug'' (JStr ''home'') (home_content s) of
        None \<Rightarrow> (Inr (RDoc HomeContent_default), s)
      | Some data \<Rightarrow> (Inr (RDoc (if data = [] then HomeContent_default else data)), s))"

definition update_home_content ::
  "config \<Rightarrow> world \<Rightarrow> token option \<Rightarrow> document \<Rightarrow> store \<Rightarrow> (error + response) \<times> store" where
  "update_home_content cfg w authorization data s =
     (case authenticate cfg (clock w) authorization of
        Inl e \<Rightarrow> (Inl e, s)
      | Inr user \<Rightarrow>
          (Inr ok_true,
           s\<lparr> home_content :=
                update_one_upsert ''slug'' (JStr ''home'') data (home_content s) \<rparr>))"

definition get_categories :: "store \<Rightarrow> (error + response) \<times> store" where
  "get_categories s =
     (Inr (RDocs (find_to_list ''ativo'' (JBool True) 1000 (categories s))), s)"

definition create_category ::
  "config \<Rightarrow> world \<Rightarrow> token option \<Rightarrow> CategoryBody \<Rightarrow> store \<Rightarrow> (error + response) \<times> store" where
  "create_category cfg w authorization body s =
     (let category = Category_init w body in
      case authenticate cfg (clock w) authorization of
        Inl e \<Rightarrow> (Inl e, s)
      | Inr user \<Rightarrow>
          (Inr (RCategory category),
           s\<lparr> categories := insert_one (Category_dump category) (categories s) \<rparr>))"

definition get_products :: "store \<Rightarrow> (error + response) \<times> store" where
  "get_products s =
     (Inr (RDocs (find_to_list ''active'' (JBool True) 1000 (products s))), s)"

definition create_product ::
  "config \<Rightarrow> world \<Rightarrow> token option \<Rightarrow> ProductBody \<Rightarrow> store \<Rightarrow> (error + response) \<times> store" where
  "create_product cfg w authorization body s =
     (let product = Product_init w body in
      case authenticate cfg (clock w) authorization of
        Inl e \<Rightarrow> (Inl e, s)
      | Inr user \<Rightarrow>
          (Inr (RProduct product),
           s\<lparr> products := insert_one (Product_dump product) (products s) \<rparr>))"

definition update_product ::
  "config \<Rightarrow> world \<Rightarrow> token option \<Rightarrow> string \<Rightarrow> document \<Rightarrow> store \<Rightarrow>
     (error + response) \<times> store" where
  "update_product cfg w authorization ident data s =
     (case authenticate cfg (clock w) authorization of
        Inl e \<Rightarrow> (Inl e, s)
      | Inr user \<Rightarrow>
          (Inr ok_true,
           s\<lparr> products := update_one ''id'' (JStr ident) data (products s) \<rparr>))"

definition delete_product ::
  "config \<Rightarrow> world \<Rightarrow> token option \<Rightarrow> string \<Rightarrow> store \<Rightarrow> (error + response) \<times> store" where
  "delete_product cfg w authorization ident s =
     (case authenticate cfg (clock w) authorization of
        Inl e \<Rightarrow> (Inl e, s)
      | Inr user \<Rightarrow>
          (Inr ok_true,
           s\<lparr> products :=
                update_one ''id'' (JStr ident) [(''active'', JBool False)] (products s) \<rparr>))"

text \<open>
  \<^verbatim>\<open>upload_image\<close>: every exception of the body, the \<^verbatim>\<open>KeyError\<close> of
  \<^verbatim>\<open>result["secure_url"]\<close> included, becomes a 500 whose detail is the exception's text.
\<close>

definition upload_image ::
  "config \<Rightarrow> world \<Rightarrow> token option \<Rightarrow> string \<Rightarrow> store \<Rightarrow> (error + response) \<times> store" where
  "upload_image cfg w authorization file s =
     (case authenticate cfg (clock w) authorization of
        Inl e \<Rightarrow> (Inl e, s)
      | Inr user \<Rightarrow>
          (case cloudinary_upload w file of
             Inl msg \<Rightarrow> (Inl (HTTPException 500 msg), s)
           | Inr result \<Rightarrow>
               (case map_of result ''secure_url'' of
                  None \<Rightarrow> (Inl (HTTPException 500 (CHR 0x27 # ''secure_url'' @ [CHR 0x27])), s)
                | Some url \<Rightarrow> (Inr (RDoc [(''url'', url)]), s))))"

text \<open>The routes of the table in the specification, each with its inputs.\<close>

datatype request =
    POST_admin_login AdminLogin
  | GET_home_content
  | PUT_home_content "token option" document
  | GET_categories
  | POST_categories "token option" CategoryBody
  | GET_products
  | POST_products "token option" ProductBody
  | PUT_products "token option" string document
  | DELETE_products "token option" string
  | POST_upload "token option" string

fun api :: "config \<Rightarrow> world \<Rightarrow> request \<Rightarrow> store \<Rightarrow> (error + response) \<times> store" where
  "api cfg w (POST_admin_login data) s = (map_sum (\<lambda>e. e) RToken (admin_login cfg (clock w) data), s)"
| "api cfg w GET_home_content s = get_home_content s"
| "api cfg w (PUT_home_content a data) s = update_home_content cfg w a data s"
| "api cfg w GET_categories s = get_categories s"
| "api cfg w (POST_categories a body) s = create_category cfg w a body s"
| "api cfg w GET_products s = get_products s"
| "api cfg w (POST_products a body) s = create_product cfg w a body s"
| "api cfg w (PUT_products a ident data) s = update_product cfg w a ident data s"
| "api cfg w (DELETE_products a ident) s = delete_product cfg w a ident s"
| "api cfg w (POST_upload a file) s = upload_image cfg w a file s"

text \<open>The endpoints that depend on \<^verbatim>\<open>verify_token\<close>, and the header of a request to one.\<close>

fun protected :: "request \<Rightarrow> bool" where
  "protected (PUT_home_content a data) = True"
| "protected (POST_categories a body) = True"
| "protected (POST_products a body) = True"
| "protected (PUT_products a ident data) = True"
| "protected (DELETE_products a ident) = True"
| "protected (POST_upload a file) = True"
| "protected r = False"

fun authorization_of :: "request \<Rightarrow> token option" where
  "authorization_of (PUT_home_content a data) = a"
| "authorization_of (POST_categories a body) = a"
| "authorization_of (POST_products a body) = a"
| "authorization_of (PUT_products a ident data) = a"
| "authorization_of (DELETE_products a ident) = a"
| "authorization_of (POST_upload a file) = a"
| "authorization_of r = None"

text \<open>A sequence of requests, each in its own world, served one after the other.\<close>

fun serve :: "config \<Rightarrow> (world \<times> request) list \<Rightarrow> store \<Rightarrow> store" where
  "serve cfg [] s = s"
| "serve cfg ((w, r) # rs) s = serve cfg rs (snd (api cfg w r s))"

section \<open>The vocabulary of the claims\<close>

text \<open>
  The conditions under which a token is to be refused, in the words of the
  specification: the token is malformed, its signature does not verify under the
  configured secret and algorithm, or it is expired.
\<close>

fun malformed :: "token \<Rightarrow> bool" where
  "malformed (Garbage s) = True"
| "malformed (JWS alg k payload) = False"

fun signature_verifies :: "config \<Rightarrow> token \<Rightarrow> bool" where
  "signature_verifies cfg (Garbage s) = False"
| "signature_verifies cfg (JWS alg k payload) = (alg = JWT_ALGORITHM cfg \<and> k = JWT_SECRET cfg)"

fun expired :: "datetime \<Rightarrow> token \<Rightarrow> bool" where
  "expired now (Garbage s) = False"
| "expired now (JWS alg k payload) =
     (case exp payload of None \<Rightarrow> False | Some e \<Rightarrow> e < timegm now)"

fun subject :: "token \<Rightarrow> string option" where
  "subject (Garbage s) = None"
| "subject (JWS alg k payload) = sub payload"

text \<open>The secret a token was signed with.\<close>

fun signing_key :: "token \<Rightarrow> string option" where
  "signing_key (Garbage s) = None"
| "signing_key (JWS alg k payload) = Some k"


text \<open>A request whose body is a field map for a product that names the field \<^verbatim>\<open>active\<close>.\<close>

fun names_active :: "request \<Rightarrow> bool" where
  "names_active (PUT_products a ident data) = (''active'' \<in> fst ` set data)"
| "names_active r = False"


section \<open>Concrete inputs\<close>

definition env0 :: environ where
  "env0 = \<lparr> env_MONGO_URL = Some ''mongodb://localhost'', env_DB_NAME = Some ''joias'',
            env_JWT_SECRET_KEY = Some ''s3cret'', env_JWT_ALGORITHM = Some ''HS256'',
            env_JWT_EXPIRATION_HOURS = None,
            env_ADMIN_USERNAME = Some ''admin'', env_ADMIN_PASSWORD = Some ''pw'' \<rparr>"

definition cfg0 :: config where
  "cfg0 = \<lparr> JWT_SECRET = ''s3cret'', JWT_ALGORITHM = ''HS256'', JWT_EXPIRATION_HOURS = 24,
            ADMIN_USER = Some ''admin'', ADMIN_PASS = Some ''pw'',
            HTTP_BEARER_STATUS = 403 \<rparr>"

definition login0 :: AdminLogin where
  "login0 = \<lparr> username = ''admin'', password = ''pw'' \<rparr>"

text \<open>A quarter of a second into second 1700000000, and the token a login then issues.\<close>

definition t0 :: datetime where
  "t0 = 1700000000250000"

definition tok0 :: token where
  "tok0 = JWS ''HS256'' ''s3cret'' \<lparr> sub = Some ''admin'', exp = Some 1700086400 \<rparr>"

text \<open>A token signed with the configured secret whose payload has no subject.\<close>

definition tok_no_sub :: token where
  "tok_no_sub = JWS ''HS256'' ''s3cret'' \<lparr> sub = None, exp = Some 1700086400 \<rparr>"

definition w0 :: world where
  "w0 = \<lparr> clock = t0, uuid4 = ''6f1c0a52-0000-4000-8000-000000000001'',
           cloudinary_upload = (\<lambda>file. Inl ''unreachable'') \<rparr>"

definition store_empty :: store where
  "store_empty = \<lparr> home_content = [], categories = [], products = [] \<rparr>"

text \<open>A body for \<^verbatim>\<open>POST /products\<close> with the required fields only.\<close>

definition required_only :: "string \<Rightarrow> string \<Rightarrow> real \<Rightarrow> ProductBody" where
  "required_only n c pr =
     \<lparr> pb_id = None, pb_name = n, pb_category = c, pb_price = pr,
       pb_promo_active = None, pb_promo_price = None, pb_images = None, pb_specs = None,
       pb_carousel = None, pb_active = None, pb_created_at = None \<rparr>"

definition body0 :: ProductBody where
  "body0 = required_only ''Anel de Prata'' ''aneis'' 199.9"



text \<open>The store after one product has been created in the empty store.\<close>

definition store_one :: store where
  "store_one = snd (create_product cfg0 w0 (Some tok0) body0 store_empty)"





section \<open>Verified properties\<close>

subsection \<open>Token verification\<close>

lemma load_config_env0: "load_config 403 env0 = Inr cfg0"
  by (simp add: load_config_def env0_def cfg0_def)

text \<open>
  What verification guarantees. \<^verbatim>\<open>verify_token\<close> fails with the 401 error
  \<open>Token_invalido\<close> whenever the token is malformed, its signature does not verify under
  the configured secret and algorithm, or it is expired, where expired means that its
  \<^verbatim>\<open>exp\<close> claim is smaller than the current whole second; every other token that carries
  a subject claim yields that subject.
\<close>

lemma verify_token_outcomes:
  "(malformed tok \<or> \<not> signature_verifies cfg tok \<or> expired now tok \<longrightarrow>
      verify_token cfg now tok = Inl (HTTPException 401 Token_invalido)) \<and>
   (\<not> malformed tok \<and> signature_verifies cfg tok \<and> \<not> expired now tok \<and>
    subject tok = Some s \<longrightarrow>
      verify_token cfg now tok = Inr s)"
  by (cases tok) (auto simp: verify_token_def split: option.splits)

lemma verify_token_outcomes_example:
  "verify_token cfg0 t0 (Garbage ''abc'') = Inl (HTTPException 401 Token_invalido) \<and>
   verify_token cfg0 t0 tok0 = Inr ''admin''"
  using verify_token_outcomes [of "Garbage ''abc''" cfg0 t0 "''admin''"]
        verify_token_outcomes [of tok0 cfg0 t0 "''admin''"]
  by (simp add: tok0_def cfg0_def t0_def timegm_def)

text \<open>
  C1. Every token is to be either refused with 401 \<open>Token_invalido\<close> (malformed, bad
  signature, expired) or answered with its subject. The code does neither for a token
  that is well formed, verifies under the configured secret and algorithm and is not
  expired, but whose payload has no \<^verbatim>\<open>sub\<close>: \<^verbatim>\<open>payload["sub"]\<close> raises \<^verbatim>\<open>KeyError\<close>
  inside the \<^verbatim>\<open>try\<close> block, whose handler catches \<^verbatim>\<open>JWTError\<close> only, and the request
  ends in an uncaught exception (status 500).
\<close>

theorem verify_token_missing_subject:
  "\<not> malformed tok_no_sub \<and> signature_verifies cfg0 tok_no_sub \<and>
   \<not> expired t0 tok_no_sub \<and> subject tok_no_sub = None \<and>
   verify_token cfg0 t0 tok_no_sub = Inl (Uncaught ''KeyError'') \<and>
   status_code (Uncaught ''KeyError'') = 500"
  by (simp add: tok_no_sub_def cfg0_def t0_def timegm_def verify_token_def)

subsection \<open>Protected endpoints\<close>

lemma authenticate_no_header:
  "authenticate cfg now None =
     Inl (HTTPException (HTTP_BEARER_STATUS cfg) ''Not authenticated'')"
  by (simp add: authenticate_def security_def)

lemma authenticate_other_secret:
  "signing_key tok = Some k \<Longrightarrow> k \<noteq> JWT_SECRET cfg \<Longrightarrow>
   authenticate cfg now (Some tok) = Inl (HTTPException 401 Token_invalido)"
  by (cases tok) (simp_all add: authenticate_def security_def verify_token_def)

lemma api_dependency_fails:
  "protected r \<Longrightarrow> authenticate cfg (clock w) (authorization_of r) = Inl e \<Longrightarrow>
   api cfg w r s = (Inl e, s)"
  by (cases r)
     (simp_all add: update_home_content_def create_category_def create_product_def
        update_product_def delete_product_def upload_image_def Let_def)

text \<open>
  C2 (as amended). A request to a protected endpoint that carries no \<^verbatim>\<open>Authorization\<close>
  header is rejected by the \<^verbatim>\<open>HTTPBearer\<close> scheme with its own "Not authenticated" error,
  whose status is the framework's (403 or 401, depending on the FastAPI release); a
  request whose token was signed with a secret other than the configured one is rejected
  with 401 \<open>Token_invalido\<close>. In both cases the store is left exactly as it was.
\<close>

theorem unauthenticated_rejected:
  assumes "protected r"
  shows "(authorization_of r = None \<longrightarrow>
            api cfg w r s =
              (Inl (HTTPException (HTTP_BEARER_STATUS cfg) ''Not authenticated''), s)) \<and>
         (\<forall>tok k. authorization_of r = Some tok \<and> signing_key tok = Some k \<and>
                  k \<noteq> JWT_SECRET cfg \<longrightarrow>
            api cfg w r s = (Inl (HTTPException 401 Token_invalido), s))"
  using assms
  by (auto simp: api_dependency_fails authenticate_no_header authenticate_other_secret)

theorem unauthenticated_rejected_witness:
  "api cfg0 w0 (PUT_products None ''p1'' [(''price'', JFloat 1)]) store_empty =
     (Inl (HTTPException 403 ''Not authenticated''), store_empty) \<and>
   api cfg0 w0
     (PUT_products (Some (JWS ''HS256'' ''other'' \<lparr> sub = Some ''admin'', exp = None \<rparr>))
        ''p1'' [(''price'', JFloat 1)]) store_empty =
     (Inl (HTTPException 401 Token_invalido), store_empty)"
  using unauthenticated_rejected
          [of "PUT_products None ''p1'' [(''price'', JFloat 1)]" cfg0 w0 store_empty]
        unauthenticated_rejected
          [of "PUT_products (Some (JWS ''HS256'' ''other'' \<lparr> sub = Some ''admin'', exp = None \<rparr>))
                 ''p1'' [(''price'', JFloat 1)]" cfg0 w0 store_empty]
  by (simp add: cfg0_def)

text \<open>
  C2 as stated fails where the framework's status for missing credentials is 403: the
  request without a header is rejected, and nothing is stored, but not with 401.
\<close>

theorem missing_header_status:
  "api cfg0 w0 (DELETE_products None ''p1'') store_empty =
     (Inl (HTTPException 403 ''Not authenticated''), store_empty) \<and>
   status_code (HTTPException 403 ''Not authenticated'') \<noteq> 401"
  by (simp add: delete_product_def authenticate_no_header cfg0_def)

subsection \<open>Login\<close>



subsection \<open>Token lifetime\<close>

text \<open>
  C4 (as amended). The token of a successful login at time \<open>t\<close> under a lifetime of
  \<open>L\<close> hours (24 when the environment sets none) carries the username as subject and,
  as expiration, the whole second of \<open>t + L\<close>. The library compares whole seconds and
  refuses only an expiration that is smaller than the current second: verification
  yields the username at every time whose whole second is not after that of \<open>t + L\<close>,
  so at every \<open>T < t + L\<close>, and fails with 401 at every time in a later second.
\<close>

theorem issued_token_lifetime:
  assumes "admin_login cfg t data = Inr r"
  shows "ADMIN_USER cfg = Some (username data) \<and>
         access_token r = JWS (JWT_ALGORITHM cfg) (JWT_SECRET cfg)
           \<lparr> sub = Some (username data),
             exp = Some (timegm (t + timedelta_hours (JWT_EXPIRATION_HOURS cfg))) \<rparr> \<and>
         (\<forall>T. timegm T \<le> timegm (t + timedelta_hours (JWT_EXPIRATION_HOURS cfg)) \<longrightarrow>
               verify_token cfg T (access_token r) = Inr (username data)) \<and>
         (\<forall>T. T < t + timedelta_hours (JWT_EXPIRATION_HOURS cfg) \<longrightarrow>
               verify_token cfg T (access_token r) = Inr (username data)) \<and>
         (\<forall>T. timegm (t + timedelta_hours (JWT_EXPIRATION_HOURS cfg)) < timegm T \<longrightarrow>
               verify_token cfg T (access_token r) =
                 Inl (HTTPException 401 Token_invalido)) \<and>
         (\<forall>status env. load_config status env = Inr cfg \<and>
                       env_JWT_EXPIRATION_HOURS env = None \<longrightarrow>
               JWT_EXPIRATION_HOURS cfg = 24)"
proof -
  let ?e = "timegm (t + timedelta_hours (JWT_EXPIRATION_HOURS cfg))"
  let ?tok = "JWS (JWT_ALGORITHM cfg) (JWT_SECRET cfg)
                \<lparr> sub = Some (username data), exp = Some ?e \<rparr>"
  from assms have r: "r = \<lparr> access_token = ?tok, token_type = ''bearer'' \<rparr>"
    by (auto simp: admin_login_def jwt_encode_def Let_def split: if_splits)
  from assms have admin: "ADMIN_USER cfg = Some (username data)"
    by (auto simp: admin_login_def split: if_splits)
  have issued: "access_token r = ?tok"
    by (simp add: r)
  have accepted:
    "\<forall>T. timegm T \<le> ?e \<longrightarrow> verify_token cfg T (access_token r) = Inr (username data)"
    by (simp add: issued verify_token_def)
  have earlier:
    "\<forall>T. T < t + timedelta_hours (JWT_EXPIRATION_HOURS cfg) \<longrightarrow>
         verify_token cfg T (access_token r) = Inr (username data)"
  proof (intro allI impI)
    fix T :: int
    assume "T < t + timedelta_hours (JWT_EXPIRATION_HOURS cfg)"
    then have "timegm T \<le> ?e"
      by (simp add: timegm_def zdiv_mono1)
    with accepted show "verify_token cfg T (access_token r) = Inr (username data)"
      by blast
  qed
  have refused:
    "\<forall>T. ?e < timegm T \<longrightarrow>
         verify_token cfg T (access_token r) = Inl (HTTPException 401 Token_invalido)"
    by (simp add: issued verify_token_def)
  have dflt:
    "\<forall>status env. load_config status env = Inr cfg \<and>
                   env_JWT_EXPIRATION_HOURS env = None \<longrightarrow>
         JWT_EXPIRATION_HOURS cfg = 24"
    by (auto simp: load_config_def split: if_splits)
  show ?thesis
    by (intro conjI) (fact admin issued accepted earlier refused dflt)+
qed

theorem issued_token_lifetime_witness:
  "access_token \<lparr> access_token = tok0, token_type = ''bearer'' \<rparr> = tok0 \<and>
   verify_token cfg0 (t0 + timedelta_hours 24 - 1) tok0 = Inr ''admin'' \<and>
   verify_token cfg0 (t0 + timedelta_hours 24 + 750000) tok0 =
     Inl (HTTPException 401 Token_invalido) \<and>
   JWT_EXPIRATION_HOURS cfg0 = 24"
proof -
  have login: "admin_login cfg0 t0 login0 = Inr \<lparr> access_token = tok0, token_type = ''bearer'' \<rparr>"
    by (simp add: admin_login_def cfg0_def login0_def t0_def tok0_def jwt_encode_def
          HMAC_ALGORITHMS_def timegm_def timedelta_hours_def)
  have hours: "JWT_EXPIRATION_HOURS cfg0 = 24"
    by (simp add: cfg0_def)
  have a: "t0 + timedelta_hours 24 - 1 < t0 + timedelta_hours (JWT_EXPIRATION_HOURS cfg0)"
    by (simp add: hours)
  have b: "timegm (t0 + timedelta_hours (JWT_EXPIRATION_HOURS cfg0))
             < timegm (t0 + timedelta_hours 24 + 750000)"
    by (simp add: hours t0_def timegm_def timedelta_hours_def)
  have unset: "env_JWT_EXPIRATION_HOURS env0 = None"
    by (simp add: env0_def)
  note facts = issued_token_lifetime [OF login]
  from facts a have "verify_token cfg0 (t0 + timedelta_hours 24 - 1) tok0 = Inr ''admin''"
    by (simp add: login0_def)
  moreover from facts b
  have "verify_token cfg0 (t0 + timedelta_hours 24 + 750000) tok0 =
          Inl (HTTPException 401 Token_invalido)"
    by simp
  moreover from facts load_config_env0 unset have "JWT_EXPIRATION_HOURS cfg0 = 24"
    by blast
  ultimately show ?thesis
    by simp
qed

text \<open>
  C4 as stated fails at its boundary: the token issued at \<open>t0\<close> with a lifetime of 24
  hours is still accepted at the time \<open>t0 + 24 h\<close>, which is not before \<open>t0 + 24 h\<close>.
\<close>

theorem token_accepted_at_expiry:
  "admin_login cfg0 t0 login0 = Inr \<lparr> access_token = tok0, token_type = ''bearer'' \<rparr> \<and>
   \<not> (t0 + timedelta_hours 24 < t0 + timedelta_hours (JWT_EXPIRATION_HOURS cfg0)) \<and>
   verify_token cfg0 (t0 + timedelta_hours 24) tok0 = Inr ''admin''"
  by (simp add: admin_login_def cfg0_def login0_def t0_def tok0_def jwt_encode_def
        HMAC_ALGORITHMS_def timegm_def timedelta_hours_def verify_token_def)

subsection \<open>The document store\<close>





lemma set_fields_Nil: "set_fields [] d = d"
  by (simp add: set_fields_def)

lemma set_fields_Cons: "set_fields ((a, b) # data) d = AList.update a b (set_fields data d)"
  by (simp add: set_fields_def)

lemma map_of_set_fields:
  "map_of (set_fields data d) k =
     (case map_of data k of None \<Rightarrow> map_of d k | Some v \<Rightarrow> Some v)"
proof (induction data)
  case Nil
  show ?case by (simp add: set_fields_Nil)
next
  case (Cons kv data)
  obtain a b where kv: "kv = (a, b)" by (cases kv)
  show ?case using Cons.IH by (simp add: kv set_fields_Cons update_conv')
qed

lemma map_of_set_fields_other:
  "k \<notin> fst ` set data \<Longrightarrow> map_of (set_fields data d) k = map_of d k"
  by (simp add: map_of_set_fields map_of_eq_None_iff [THEN iffD2])

lemma length_update_one: "length (update_one k v data coll) = length coll"
  by (induction coll) auto


lemma update_one_first_match:
  "i < length coll \<Longrightarrow> matches k v (coll ! i) \<Longrightarrow> \<forall>j<i. \<not> matches k v (coll ! j) \<Longrightarrow>
   update_one k v data coll = coll[i := set_fields data (coll ! i)]"
proof (induction coll arbitrary: i)
  case Nil
  then show ?case by simp
next
  case (Cons d coll)
  show ?case
  proof (cases i)
    case 0
    with Cons.prems show ?thesis by simp
  next
    case (Suc n)
    with Cons.prems have "\<not> matches k v d" by auto
    moreover from Suc Cons.prems have "\<forall>j<n. \<not> matches k v (coll ! j)" by auto
    ultimately show ?thesis using Suc Cons.prems Cons.IH [of n] by simp
  qed
qed

lemma nth_update_one:
  "j < length coll \<Longrightarrow>
   update_one k v data coll ! j = coll ! j \<or>
   update_one k v data coll ! j = set_fields data (coll ! j)"
proof (induction coll arbitrary: j)
  case Nil
  then show ?case by simp
next
  case (Cons d coll)
  then show ?case by (cases j) auto
qed

subsection \<open>Listings\<close>






subsection \<open>Updating and deleting a product\<close>

lemma authenticate_tok0: "authenticate cfg0 (clock w0) (Some tok0) = Inr ''admin''"
  by (simp add: authenticate_def security_def verify_token_def cfg0_def w0_def t0_def
        tok0_def timegm_def)

lemma products_store_one: "products store_one = [Product_dump (Product_init w0 body0)]"
  by (simp add: store_one_def create_product_def authenticate_tok0 Let_def insert_one_def
        store_empty_def)




subsection \<open>Creating categories and products\<close>



lemma matches_id_Product_dump:
  "matches ''id'' (JStr i) (Product_dump p) = (p_id p = i)"
  by (simp add: matches_def Product_dump_def)









subsection \<open>Home content\<close>













subsection \<open>Soft deletion\<close>

lemma flag_after_delete:
  "map_of (set_fields [(''active'', JBool False)] d) ''active'' = Some (JBool False)"
  by (simp add: map_of_set_fields)

lemma flag_kept_by_update_one:
  assumes "i < length coll" and "map_of (coll ! i) ''active'' = Some (JBool False)"
    and "''active'' \<notin> fst ` set data \<or> data = [(''active'', JBool False)]"
  shows "map_of (update_one k v data coll ! i) ''active'' = Some (JBool False)"
proof -
  from assms(1) nth_update_one [of i coll k v data]
  consider "update_one k v data coll ! i = coll ! i"
    | "update_one k v data coll ! i = set_fields data (coll ! i)"
    by blast
  then show ?thesis
  proof cases
    case 1
    with assms(2) show ?thesis by simp
  next
    case 2
    with assms(2,3) show ?thesis
      by (auto simp: map_of_set_fields_other flag_after_delete)
  qed
qed

text \<open>One request leaves a product's flag false, unless its body names the flag.\<close>

lemma flag_kept_by_api:
  assumes i: "i < length (products s)"
    and off: "map_of (products s ! i) ''active'' = Some (JBool False)"
    and quiet: "\<not> names_active r"
  shows "i < length (products (snd (api cfg w r s))) \<and>
         map_of (products (snd (api cfg w r s)) ! i) ''active'' = Some (JBool False)"
proof (cases r)
  case (POST_admin_login data)
  with i off show ?thesis by simp
next
  case GET_home_content
  with i off show ?thesis by (simp add: get_home_content_def split: option.splits)
next
  case (PUT_home_content a data)
  with i off show ?thesis
    by (simp add: update_home_content_def split: sum.splits)
next
  case GET_categories
  with i off show ?thesis by (simp add: get_categories_def)
next
  case (POST_categories a body)
  with i off show ?thesis
    by (simp add: create_category_def Let_def split: sum.splits)
next
  case GET_products
  with i off show ?thesis by (simp add: get_products_def)
next
  case (POST_products a body)
  with i off show ?thesis
    by (simp add: create_product_def Let_def insert_one_def nth_append split: sum.splits)
next
  case (PUT_products a ident data)
  with quiet have "''active'' \<notin> fst ` set data" by simp
  with i off PUT_products show ?thesis
    by (simp add: update_product_def length_update_one flag_kept_by_update_one
          split: sum.splits)
next
  case (DELETE_products a ident)
  with i off show ?thesis
    by (simp add: delete_product_def length_update_one flag_kept_by_update_one
          split: sum.splits)
next
  case (POST_upload a upload)
  with i off show ?thesis
    by (simp add: upload_image_def split: sum.splits option.splits)
qed

lemma flag_kept_by_serve:
  assumes "i < length (products s)"
    and "map_of (products s ! i) ''active'' = Some (JBool False)"
    and "\<forall>(w, r) \<in> set rs. \<not> names_active r"
  shows "i < length (products (serve cfg rs s)) \<and>
         map_of (products (serve cfg rs s) ! i) ''active'' = Some (JBool False)"
  using assms
proof (induction rs arbitrary: s)
  case Nil
  then show ?case by simp
next
  case (Cons wr rs)
  obtain w r where wr: "wr = (w, r)" by (cases wr)
  from Cons.prems(3) wr have quiet: "\<not> names_active r"
    and rest: "\<forall>(w, r) \<in> set rs. \<not> names_active r"
    by simp_all
  from flag_kept_by_api [OF Cons.prems(1,2) quiet, of cfg w]
  have "i < length (products (snd (api cfg w r s)))"
    and "map_of (products (snd (api cfg w r s)) ! i) ''active'' = Some (JBool False)"
    by simp_all
  from Cons.IH [OF this rest] show ?case
    by (simp add: wr)
qed

text \<open>
  C9 (as amended). Once an authenticated \<^verbatim>\<open>DELETE /products/{id}\<close> has set a product's
  \<open>active\<close> flag to false, the flag stays false through every sequence of requests to
  the endpoints of the API in which no \<^verbatim>\<open>PUT /products/{id}\<close> body names the field
  \<open>active\<close>. (A \<^verbatim>\<open>PUT\<close> whose body names it sets it to whatever the body says.)
\<close>

theorem soft_delete_stays:
  assumes auth: "authenticate cfg (clock w) a = Inr user"
    and hit: "i < length (products s)" "matches ''id'' (JStr ident) (products s ! i)"
             "\<forall>j<i. \<not> matches ''id'' (JStr ident) (products s ! j)"
    and quiet: "\<forall>(w', r) \<in> set rs. \<not> names_active r"
  shows "delete_product cfg w a ident s =
           (Inr ok_true, snd (delete_product cfg w a ident s)) \<and>
         map_of (products (snd (delete_product cfg w a ident s)) ! i) ''active'' =
           Some (JBool False) \<and>
         i < length (products (serve cfg rs (snd (delete_product cfg w a ident s)))) \<and>
         map_of (products (serve cfg rs (snd (delete_product cfg w a ident s))) ! i)
           ''active'' = Some (JBool False)"
proof -
  let ?s = "snd (delete_product cfg w a ident s)"
  have del: "delete_product cfg w a ident s =
               (Inr ok_true,
                s\<lparr> products := (products s)
                      [i := set_fields [(''active'', JBool False)] (products s ! i)] \<rparr>)"
    using auth hit by (simp add: delete_product_def update_one_first_match)
  then have answered: "delete_product cfg w a ident s = (Inr ok_true, ?s)"
    by simp
  from del hit(1) have len: "i < length (products ?s)"
    and off: "map_of (products ?s ! i) ''active'' = Some (JBool False)"
    by (simp_all add: flag_after_delete)
  from flag_kept_by_serve [OF len off quiet, of cfg] answered off show ?thesis
    by blast
qed

theorem soft_delete_stays_witness:
  "map_of (products (snd (delete_product cfg0 w0 (Some tok0) (uuid4 w0) store_one)) ! 0)
     ''active'' = Some (JBool False) \<and>
   map_of (products (serve cfg0
                       [(w0, PUT_products (Some tok0) (uuid4 w0) [(''price'', JFloat 149.9)]),
                        (w0, POST_products (Some tok0) body0),
                        (w0, GET_products)]
                       (snd (delete_product cfg0 w0 (Some tok0) (uuid4 w0) store_one))) ! 0)
     ''active'' = Some (JBool False)"
proof -
  have hit: "0 < length (products store_one)"
    "matches ''id'' (JStr (uuid4 w0)) (products store_one ! 0)"
    "\<forall>j<0. \<not> matches ''id'' (JStr (uuid4 w0)) (products store_one ! j)"
    by (simp_all add: products_store_one matches_id_Product_dump Product_init_def body0_def
          required_only_def or_default_def)
  have quiet: "\<forall>(w', r) \<in> set [(w0, PUT_products (Some tok0) (uuid4 w0) [(''price'', JFloat 149.9)]),
                                (w0, POST_products (Some tok0) body0),
                                (w0, GET_products)]. \<not> names_active r"
    by simp
  from soft_delete_stays [OF authenticate_tok0 hit quiet] show ?thesis
    by blast
qed

text \<open>
  C9 as stated fails: after the \<^verbatim>\<open>DELETE\<close> has set the flag of the product to false,
  one \<^verbatim>\<open>PUT /products/{id}\<close> with the body \<^verbatim>\<open>{"active": true}\<close> sets it to true again, and
  the product is back in the listing.
\<close>

theorem soft_delete_reverted:
  "map_of (products (snd (delete_product cfg0 w0 (Some tok0) (uuid4 w0) store_one)) ! 0)
     ''active'' = Some (JBool False) \<and>
   fst (get_products (snd (delete_product cfg0 w0 (Some tok0) (uuid4 w0) store_one))) =
     Inr (RDocs []) \<and>
   map_of (products (serve cfg0
                       [(w0, PUT_products (Some tok0) (uuid4 w0) [(''active'', JBool True)])]
                       (snd (delete_product cfg0 w0 (Some tok0) (uuid4 w0) store_one))) ! 0)
     ''active'' = Some (JBool True) \<and>
   fst (get_products
          (serve cfg0
             [(w0, PUT_products (Some tok0) (uuid4 w0) [(''active'', JBool True)])]
             (snd (delete_product cfg0 w0 (Some tok0) (uuid4 w0) store_one)))) =
     Inr (RDocs [Product_dump (Product_init w0 body0)])"
  by (simp add: delete_product_def update_product_def get_products_def authenticate_tok0
        products_store_one Product_dump_def Product_init_def body0_def required_only_def
        or_default_def matches_def set_fields_def find_to_list_def project_id_def
        ProductCarousel_default_def ProductCarousel_dump_def)

end
